theory Spec2Isabelle
  imports Complex_Main "HOL-Library.Sublist"
begin

section \<open>Python values\<close>

subsection \<open>Exceptions\<close>

text \<open>
  The exception classes that the loader and the handlers meet. An exception value carries
  its class and the text that \<^verbatim>\<open>str(e)\<close> gives. \<open>IOError\<close> is Python 3's alias of
  \<open>OSError\<close>; \<open>FileNotFoundError\<close>, \<open>IsADirectoryError\<close>, \<open>NotADirectoryError\<close>,
  \<open>FileExistsError\<close> and \<open>PermissionError\<close> are subclasses of it and are all modelled by
  the class \<open>OSError\<close>. \<open>KeyboardInterrupt\<close> and \<open>SystemExit\<close> derive from
  \<open>BaseException\<close> only, so a clause \<^verbatim>\<open>except Exception\<close> does not catch them.
\<close>

datatype exn_class =
    OSError | JSONDecodeError | UnicodeDecodeError | ValueError | TypeError
  | AttributeError | IndexError | RecursionError | TimeoutExpired
  | KeyboardInterrupt | SystemExit

datatype exn = Exn exn_class string

fun is_Exception :: "exn_class \<Rightarrow> bool" where
  "is_Exception KeyboardInterrupt = False"
| "is_Exception SystemExit = False"
| "is_Exception _ = True"

fun exn_cls :: "exn \<Rightarrow> exn_class" where
  "exn_cls (Exn c m) = c"

fun exn_str :: "exn \<Rightarrow> string" where
  "exn_str (Exn c m) = m"

text \<open>\<^verbatim>\<open>except (json.JSONDecodeError, IOError)\<close>\<close>

definition is_JSONDecodeError_or_IOError :: "exn \<Rightarrow> bool" where
  "is_JSONDecodeError_or_IOError e = (exn_cls e = JSONDecodeError \<or> exn_cls e = OSError)"


text \<open>Sequencing of calls that may raise: the first exception ends the computation.\<close>

definition and_then :: "exn + 'a \<Rightarrow> ('a \<Rightarrow> exn + 'b) \<Rightarrow> exn + 'b" where
  "and_then r f = (case r of Inl e \<Rightarrow> Inl e | Inr x \<Rightarrow> f x)"

subsection \<open>JSON documents\<close>

text \<open>
  What \<^verbatim>\<open>json.load\<close> returns: \<open>None\<close>, booleans, unbounded integers, floats, strings,
  lists and dictionaries with string keys. A dictionary is an association list in insertion
  order; lookup takes the first entry of a key. The code only compares floats, so a finite
  float is modelled by the rational number it denotes.
\<close>

datatype pyfloat = Finite rat | Inf bool | NaN

datatype json =
    JNull | JBool bool | JInt int | JFloat pyfloat | JStr string
  | JArr "json list" | JObj "(string \<times> json) list"




text \<open>Truth value of an object (\<^verbatim>\<open>if not name\<close>).\<close>

fun truthy :: "json \<Rightarrow> bool" where
  "truthy JNull = False"
| "truthy (JBool b) = b"
| "truthy (JInt i) = (i \<noteq> 0)"
| "truthy (JFloat f) = (f \<noteq> Finite 0)"
| "truthy (JStr s) = (s \<noteq> [])"
| "truthy (JArr xs) = (xs \<noteq> [])"
| "truthy (JObj kvs) = (kvs \<noteq> [])"

text \<open>\<^verbatim>\<open>obj.get(k, default)\<close> and \<^verbatim>\<open>obj.items()\<close>: only a dictionary has these methods.\<close>

definition dict_get :: "json \<Rightarrow> string \<Rightarrow> json \<Rightarrow> exn + json" where
  "dict_get obj k dflt =
     (case obj of
        JObj kvs \<Rightarrow> Inr (case map_of kvs k of None \<Rightarrow> dflt | Some v \<Rightarrow> v)
      | _ \<Rightarrow> Inl (Exn AttributeError ''object has no attribute 'get' ''))"

definition dict_items :: "json \<Rightarrow> exn + (string \<times> json) list" where
  "dict_items obj =
     (case obj of
        JObj kvs \<Rightarrow> Inr kvs
      | _ \<Rightarrow> Inl (Exn AttributeError ''object has no attribute 'items' ''))"

subsection \<open>Strings\<close>

text \<open>
  Strings are lists of characters; case conversion is modelled for the ASCII letters, every
  other character is uncased.
\<close>

definition lowercase_letters :: string where
  "lowercase_letters = ''abcdefghijklmnopqrstuvwxyz''"

definition uppercase_letters :: string where
  "uppercase_letters = ''ABCDEFGHIJKLMNOPQRSTUVWXYZ''"

definition is_lower :: "char \<Rightarrow> bool" where
  "is_lower c = (c \<in> set lowercase_letters)"

definition is_upper :: "char \<Rightarrow> bool" where
  "is_upper c = (c \<in> set uppercase_letters)"

definition is_cased :: "char \<Rightarrow> bool" where
  "is_cased c = (is_lower c \<or> is_upper c)"

definition to_upper :: "char \<Rightarrow> char" where
  "to_upper c = (case map_of (zip lowercase_letters uppercase_letters) c of
                   Some u \<Rightarrow> u | None \<Rightarrow> c)"

definition to_lower :: "char \<Rightarrow> char" where
  "to_lower c = (case map_of (zip uppercase_letters lowercase_letters) c of
                   Some l \<Rightarrow> l | None \<Rightarrow> c)"

text \<open>\<^verbatim>\<open>s.title()\<close>: a cased character that follows an uncased one (or starts the string)
  is put in upper case, a character that follows a cased one in lower case.\<close>

fun title_from :: "bool \<Rightarrow> string \<Rightarrow> string" where
  "title_from previous_is_cased [] = []"
| "title_from previous_is_cased (c # cs) =
     (if previous_is_cased then to_lower c else to_upper c) # title_from (is_cased c) cs"

definition py_title :: "string \<Rightarrow> string" where
  "py_title s = title_from False s"

text \<open>\<^verbatim>\<open>s.replace(old, new)\<close>: every occurrence of \<open>old\<close>, found from the left without
  overlaps, is replaced.\<close>

fun replace_from :: "string \<Rightarrow> string \<Rightarrow> string \<Rightarrow> string" where
  "replace_from old new [] = []"
| "replace_from old new (c # cs) =
     (if old \<noteq> [] \<and> prefix old (c # cs)
      then new @ replace_from old new (drop (length old) (c # cs))
      else c # replace_from old new cs)"

definition py_replace :: "string \<Rightarrow> string \<Rightarrow> string \<Rightarrow> string" where
  "py_replace s old new =
     (if old = [] then new @ concat (map (\<lambda>c. c # new) s) else replace_from old new s)"

text \<open>\<^verbatim>\<open>s.startswith(p)\<close> and \<^verbatim>\<open>p in s\<close> (substring test).\<close>

definition startswith :: "string \<Rightarrow> string \<Rightarrow> bool" where
  "startswith s p = prefix p s"

definition py_in :: "string \<Rightarrow> string \<Rightarrow> bool" where
  "py_in p s = sublist p s"


text \<open>\<^verbatim>\<open>sep.join(v)\<close>: \<open>v\<close> is iterated; each item must be a string. A string iterates
  over its characters, a dictionary over its keys; the other values are not iterable.\<close>

fun join_strs :: "string \<Rightarrow> string list \<Rightarrow> string" where
  "join_strs sep [] = []"
| "join_strs sep [x] = x"
| "join_strs sep (x # y # ys) = x @ sep @ join_strs sep (y # ys)"

fun the_str :: "json \<Rightarrow> string option" where
  "the_str (JStr s) = Some s"
| "the_str _ = None"

definition py_join :: "string \<Rightarrow> json \<Rightarrow> exn + string" where
  "py_join sep v =
     (case v of
        JArr xs \<Rightarrow>
          (if list_all (\<lambda>x. the_str x \<noteq> None) xs
           then Inr (join_strs sep (map (\<lambda>x. the (the_str x)) xs))
           else Inl (Exn TypeError ''sequence item: expected str instance''))
      | JStr s \<Rightarrow> Inr (join_strs sep (map (\<lambda>c. [c]) s))
      | JObj kvs \<Rightarrow> Inr (join_strs sep (map fst kvs))
      | _ \<Rightarrow> Inl (Exn TypeError ''can only join an iterable''))"

text \<open>\<^verbatim>\<open>re.sub(r'([a-z])([A-Z])', r'\1 \2', s)\<close>: a space goes between a lower-case ASCII
  letter and an upper-case ASCII letter that follows it; the scan goes on after the pair.\<close>

fun camel_split :: "string \<Rightarrow> string" where
  "camel_split (a # b # cs) =
     (if is_lower a \<and> is_upper b then a # CHR '' '' # b # camel_split cs
      else a # camel_split (b # cs))"
| "camel_split cs = cs"

section \<open>The file system\<close>

text \<open>
  A path is the list of its components below the root, already expanded
  (\<^verbatim>\<open>os.path.expanduser\<close>) and normalised; \<^verbatim>\<open>os.path.join(p, x)\<close> is \<open>p @ [x]\<close> and
  \<^verbatim>\<open>os.path.dirname(p)\<close> is \<open>butlast p\<close>. The file system maps a path to a regular file
  with its text, or to a directory with the names that \<^verbatim>\<open>os.listdir\<close> returns, in that
  order. Every file is readable and writable; the one I/O error of \<^verbatim>\<open>open\<close> that the
  model has is opening a directory or a path whose parent is not a directory.
\<close>

type_synonym path = "string list"

datatype node = File string | Dir "string list"

type_synonym filesystem = "path \<Rightarrow> node option"

definition path_exists :: "filesystem \<Rightarrow> path \<Rightarrow> bool" where
  "path_exists fs p = (fs p \<noteq> None)"

definition isdir :: "filesystem \<Rightarrow> path \<Rightarrow> bool" where
  "isdir fs p = (case fs p of Some (Dir names) \<Rightarrow> True | _ \<Rightarrow> False)"

definition listdir :: "filesystem \<Rightarrow> path \<Rightarrow> exn + string list" where
  "listdir fs p =
     (case fs p of
        Some (Dir names) \<Rightarrow> Inr names
      | Some (File text) \<Rightarrow> Inl (Exn OSError ''Not a directory'')
      | None \<Rightarrow> Inl (Exn OSError ''No such file or directory''))"

text \<open>\<^verbatim>\<open>with open(p, 'r') as f: f.read()\<close>\<close>

definition read_file :: "filesystem \<Rightarrow> path \<Rightarrow> exn + string" where
  "read_file fs p =
     (case fs p of
        Some (File text) \<Rightarrow> Inr text
      | Some (Dir names) \<Rightarrow> Inl (Exn OSError ''Is a directory'')
      | None \<Rightarrow> Inl (Exn OSError ''No such file or directory''))"







text \<open>\<^verbatim>\<open>with open(p, 'r') as f: json.load(f)\<close>. The parser \<open>loads\<close> of Python's \<open>json\<close>
  module is a parameter: it maps the text of a file to a document or to the exception it
  raises.\<close>

definition json_load_file :: "(string \<Rightarrow> exn + json) \<Rightarrow> filesystem \<Rightarrow> path \<Rightarrow> exn + json" where
  "json_load_file loads fs p = and_then (read_file fs p) loads"

section \<open>The plugin loader (\<^verbatim>\<open>plugin_loader.py\<close>)\<close>

subsection \<open>The data model\<close>

text \<open>
  The dataclasses \<open>PluginSetting\<close> and \<open>PluginConfig\<close>. Python does not check the field
  annotations, so a field holds whatever JSON value the descriptor gives; \<open>None\<close> is
  \<open>JNull\<close>. The \<open>name\<close> of a record that was built is a string, and the keys of \<open>settings\<close>
  are strings.
\<close>

record plugin_setting =
  setting_key :: string
  setting_type :: json
  setting_label :: json
  setting_description :: json
  setting_check :: json
  setting_configure :: json
  setting_unconfigure :: json
  setting_open_settings :: json
  setting_options :: json
  setting_default :: json

record plugin_config =
  name :: string
  display_name :: json
  description :: json
  version :: json
  wm_class :: json
  plugin_type :: json
  executables :: json
  flags :: json
  conditional_flags :: json
  is_single_instance :: json
  auto_restore :: json
  needs_config_manipulation :: json
  needs_title_parsing :: json
  settings :: "string \<rightharpoonup> plugin_setting"
  plugin_path :: path

text \<open>The state of a \<open>PluginLoader\<close> object: \<open>_plugins\<close> and \<open>_loaded\<close>.\<close>

record plugin_loader =
  plugins :: "string \<rightharpoonup> plugin_config"
  loaded :: bool

definition init_loader :: plugin_loader where
  "init_loader = \<lparr>plugins = Map.empty, loaded = False\<rparr>"

text \<open>The two search roots, below the home directory that \<open>GLib.get_home_dir()\<close> gives.\<close>

definition EXTENSION_PLUGIN_PATH :: "path \<Rightarrow> path" where
  "EXTENSION_PLUGIN_PATH home =
     home @ [''.local'', ''share'', ''cinnamon'', ''extensions'', ''remember@thechief'', ''plugins'']"

definition USER_PLUGIN_PATH :: "path \<Rightarrow> path" where
  "USER_PLUGIN_PATH home = home @ [''.config'', ''remember@thechief'', ''plugins'']"

subsection \<open>Parsing one descriptor\<close>

definition parse_setting :: "string \<Rightarrow> json \<Rightarrow> exn + plugin_setting" where
  "parse_setting k data =
     and_then (dict_get data ''type'' (JStr ''boolean'')) (\<lambda>ty.
     and_then (dict_get data ''label'' (JStr k)) (\<lambda>lbl.
     and_then (dict_get data ''description'' (JStr [])) (\<lambda>descr.
     and_then (dict_get data ''check'' JNull) (\<lambda>chk.
     and_then (dict_get data ''configure'' JNull) (\<lambda>conf.
     and_then (dict_get data ''unconfigure'' JNull) (\<lambda>unconf.
     and_then (dict_get data ''openSettings'' JNull) (\<lambda>opn.
     and_then (dict_get data ''options'' JNull) (\<lambda>opts.
     and_then (dict_get data ''default'' JNull) (\<lambda>dflt.
       Inr \<lparr>setting_key = k, setting_type = ty, setting_label = lbl,
            setting_description = descr, setting_check = chk, setting_configure = conf,
            setting_unconfigure = unconf, setting_open_settings = opn,
            setting_options = opts, setting_default = dflt\<rparr>)))))))))"

definition generate_flag_label :: "string \<Rightarrow> string" where
  "generate_flag_label flag_key = py_title (camel_split flag_key)"

text \<open>The loop \<^verbatim>\<open>for key, setting_data in settings_data.items()\<close>.\<close>

fun parse_settings ::
  "(string \<times> json) list \<Rightarrow> (string \<rightharpoonup> plugin_setting) \<Rightarrow> exn + (string \<rightharpoonup> plugin_setting)"
where
  "parse_settings [] st = Inr st"
| "parse_settings ((k, setting_data) # rest) st =
     and_then (parse_setting k setting_data) (\<lambda>s. parse_settings rest (st(k \<mapsto> s)))"

text \<open>The loop \<^verbatim>\<open>for flag_key, flags in conditional_flags.items()\<close> that generates the
  launch-flag settings.\<close>

definition launch_flag_setting :: "string \<Rightarrow> string \<Rightarrow> plugin_setting" where
  "launch_flag_setting skey joined =
     \<lparr>setting_key = skey, setting_type = JStr ''launch_flag'',
      setting_label = JStr (generate_flag_label skey),
      setting_description = JStr (''Use flags: '' @ joined),
      setting_check = JNull, setting_configure = JNull, setting_unconfigure = JNull,
      setting_open_settings = JNull, setting_options = JNull,
      setting_default = JBool True\<rparr>"

fun generate_launch_flags ::
  "(string \<times> json) list \<Rightarrow> (string \<rightharpoonup> plugin_setting) \<Rightarrow> exn + (string \<rightharpoonup> plugin_setting)"
where
  "generate_launch_flags [] st = Inr st"
| "generate_launch_flags ((flag_key, flgs) # rest) st =
     (if startswith flag_key ''launchFlags.'' then
        (let skey = py_replace flag_key ''launchFlags.'' [] in
         if st skey = None then
           and_then (py_join '' '' flgs) (\<lambda>joined.
             generate_launch_flags rest (st(skey \<mapsto> launch_flag_setting skey joined)))
         else generate_launch_flags rest st)
      else generate_launch_flags rest st)"

text \<open>Lines 137 to 190 of \<open>_load_plugin_config\<close>: the record built from the parsed
  document \<open>data\<close>. \<open>Inr None\<close> is \<^verbatim>\<open>return None\<close>.\<close>

definition build_plugin_config :: "json \<Rightarrow> path \<Rightarrow> exn + plugin_config option" where
  "build_plugin_config data plugin_dir =
     and_then (dict_get data ''name'' (JStr [])) (\<lambda>nm.
       if \<not> truthy nm then Inr None
       else (case nm of
         JStr n \<Rightarrow>
           and_then (dict_get data ''displayName''
                       (JStr (py_title (py_replace n ''-'' '' '')))) (\<lambda>dn.
           and_then (dict_get data ''launch'' (JObj [])) (\<lambda>launch.
           and_then (dict_get launch ''conditionalFlags'' (JObj [])) (\<lambda>cflags.
           and_then (dict_get data ''features'' (JObj [])) (\<lambda>features.
           and_then (dict_get data ''settings'' (JObj [])) (\<lambda>settings_data.
           and_then (dict_items settings_data) (\<lambda>setting_items.
           and_then (parse_settings setting_items Map.empty) (\<lambda>parsed.
           and_then (dict_items cflags) (\<lambda>flag_items.
           and_then (generate_launch_flags flag_items parsed) (\<lambda>all_settings.
           and_then (dict_get data ''description'' (JStr [])) (\<lambda>descr.
           and_then (dict_get data ''version'' (JStr ''1.0.0'')) (\<lambda>ver.
           and_then (dict_get data ''wmClass'' (JArr [])) (\<lambda>wm.
           and_then (dict_get data ''type'' (JStr [])) (\<lambda>ty.
           and_then (dict_get launch ''executables'' (JArr [])) (\<lambda>execs.
           and_then (dict_get launch ''flags'' (JArr [])) (\<lambda>flgs.
           and_then (dict_get features ''isSingleInstance'' (JBool False)) (\<lambda>single.
           and_then (dict_get features ''autoRestore'' (JBool False)) (\<lambda>auto.
           and_then (dict_get features ''needsConfigManipulation'' (JBool False)) (\<lambda>manip.
           and_then (dict_get features ''needsTitleParsing'' (JBool False)) (\<lambda>titlep.
             Inr (Some \<lparr>name = n, display_name = dn, description = descr, version = ver,
                        wm_class = wm, plugin_type = ty, executables = execs, flags = flgs,
                        conditional_flags = cflags, is_single_instance = single,
                        auto_restore = auto, needs_config_manipulation = manip,
                        needs_title_parsing = titlep, settings = all_settings,
                        plugin_path = plugin_dir\<rparr>))))))))))))))))))))
       | _ \<Rightarrow> Inl (Exn AttributeError ''object has no attribute 'replace' '')))"

text \<open>\<open>_load_plugin_config\<close>: a descriptor that cannot be read or decoded gives \<open>None\<close>;
  any other exception of the parser is raised.\<close>

definition load_plugin_config ::
  "(string \<Rightarrow> exn + json) \<Rightarrow> filesystem \<Rightarrow> path \<Rightarrow> path \<Rightarrow> exn + plugin_config option"
where
  "load_plugin_config loads fs config_file plugin_dir =
     (case json_load_file loads fs config_file of
        Inl e \<Rightarrow> (if is_JSONDecodeError_or_IOError e then Inr None else Inl e)
      | Inr data \<Rightarrow> build_plugin_config data plugin_dir)"

subsection \<open>Scanning the roots\<close>

definition get_plugin_directories :: "filesystem \<Rightarrow> path \<Rightarrow> path list" where
  "get_plugin_directories fs home =
     (if isdir fs (EXTENSION_PLUGIN_PATH home) then [EXTENSION_PLUGIN_PATH home] else []) @
     (if isdir fs (USER_PLUGIN_PATH home) then [USER_PLUGIN_PATH home] else [])"

text \<open>The loop over \<^verbatim>\<open>os.listdir(base_dir)\<close>. The inner \<^verbatim>\<open>except Exception\<close> drops the
  item whose load raised; an exception outside \<open>Exception\<close> leaves the loop.\<close>

fun scan_items ::
  "(string \<Rightarrow> exn + json) \<Rightarrow> filesystem \<Rightarrow> path \<Rightarrow> string list \<Rightarrow> plugin_loader
     \<Rightarrow> exn + plugin_loader"
where
  "scan_items loads fs base_dir [] st = Inr st"
| "scan_items loads fs base_dir (item # items) st =
     (let plugin_dir = base_dir @ [item];
          config_file = plugin_dir @ [''config.json'']
      in if isdir fs plugin_dir \<and> path_exists fs config_file then
           (case load_plugin_config loads fs config_file plugin_dir of
              Inr (Some config) \<Rightarrow>
                scan_items loads fs base_dir items
                  (st\<lparr>plugins := (plugins st)(name config \<mapsto> config)\<rparr>)
            | Inr None \<Rightarrow> scan_items loads fs base_dir items st
            | Inl e \<Rightarrow>
                if is_Exception (exn_cls e) then scan_items loads fs base_dir items st
                else Inl e)
         else scan_items loads fs base_dir items st)"

definition scan_plugin_directory ::
  "(string \<Rightarrow> exn + json) \<Rightarrow> filesystem \<Rightarrow> path \<Rightarrow> plugin_loader \<Rightarrow> exn + plugin_loader"
where
  "scan_plugin_directory loads fs base_dir st =
     (case listdir fs base_dir of
        Inl e \<Rightarrow> (if is_Exception (exn_cls e) then Inr st else Inl e)
      | Inr items \<Rightarrow> scan_items loads fs base_dir items st)"

fun scan_directories ::
  "(string \<Rightarrow> exn + json) \<Rightarrow> filesystem \<Rightarrow> path list \<Rightarrow> plugin_loader \<Rightarrow> exn + plugin_loader"
where
  "scan_directories loads fs [] st = Inr st"
| "scan_directories loads fs (d # ds) st =
     and_then (scan_plugin_directory loads fs d st) (scan_directories loads fs ds)"

definition load_all ::
  "(string \<Rightarrow> exn + json) \<Rightarrow> filesystem \<Rightarrow> path \<Rightarrow> plugin_loader \<Rightarrow> exn + plugin_loader"
where
  "load_all loads fs home st =
     (if loaded st then Inr st
      else and_then
             (scan_directories loads fs (get_plugin_directories fs home)
                (st\<lparr>plugins := Map.empty\<rparr>))
             (\<lambda>st'. Inr (st'\<lparr>loaded := True\<rparr>)))"

definition reload ::
  "(string \<Rightarrow> exn + json) \<Rightarrow> filesystem \<Rightarrow> path \<Rightarrow> plugin_loader \<Rightarrow> exn + plugin_loader"
where
  "reload loads fs home st = load_all loads fs home (st\<lparr>loaded := False, plugins := Map.empty\<rparr>)"

text \<open>The queries return their answer and the loader after the load.\<close>

definition get_all_plugins ::
  "(string \<Rightarrow> exn + json) \<Rightarrow> filesystem \<Rightarrow> path \<Rightarrow> plugin_loader
     \<Rightarrow> exn + (string \<rightharpoonup> plugin_config) \<times> plugin_loader"
where
  "get_all_plugins loads fs home st =
     and_then (load_all loads fs home st) (\<lambda>st'. Inr (plugins st', st'))"

definition get_plugin ::
  "(string \<Rightarrow> exn + json) \<Rightarrow> filesystem \<Rightarrow> path \<Rightarrow> plugin_loader \<Rightarrow> string
     \<Rightarrow> exn + plugin_config option \<times> plugin_loader"
where
  "get_plugin loads fs home st nm =
     and_then (load_all loads fs home st) (\<lambda>st'. Inr (plugins st' nm, st'))"

section \<open>The handlers (\<^verbatim>\<open>plugin_handlers.py\<close>)\<close>

subsection \<open>The \<open>execute\<close> wrappers\<close>

text \<open>
  A handler's \<open>check\<close> or \<open>configure\<close> runs in a world \<open>'w\<close> (the file system, the
  processes) and gives the boolean it returns or the exception it raises, with the world
  it leaves. \<open>execute\<close> returns a pair \<open>(success, error_message)\<close>; its clause
  \<^verbatim>\<open>except Exception as e\<close> lets an exception outside \<open>Exception\<close> through.
\<close>

definition CheckHandler_execute ::
  "('w \<Rightarrow> (exn + bool) \<times> 'w) \<Rightarrow> 'w \<Rightarrow> (exn + bool \<times> string option) \<times> 'w"
where
  "CheckHandler_execute check w =
     (case check w of
        (Inr r, w') \<Rightarrow> (Inr (r, None), w')
      | (Inl e, w') \<Rightarrow>
          (if is_Exception (exn_cls e) then (Inr (False, Some (exn_str e)), w')
           else (Inl e, w')))"

definition ConfigureHandler_execute ::
  "('w \<Rightarrow> (exn + bool) \<times> 'w) \<Rightarrow> 'w \<Rightarrow> (exn + bool \<times> string option) \<times> 'w"
where
  "ConfigureHandler_execute configure w =
     (case configure w of
        (Inr r, w') \<Rightarrow> (Inr (r, None), w')
      | (Inl e, w') \<Rightarrow>
          (if is_Exception (exn_cls e) then (Inr (False, Some (exn_str e)), w')
           else (Inl e, w')))"

text \<open>A check that only reads the world leaves it as it was.\<close>

definition read_only :: "('w \<Rightarrow> exn + bool) \<Rightarrow> 'w \<Rightarrow> (exn + bool) \<times> 'w" where
  "read_only check w = (check w, w)"

subsection \<open>Check handlers\<close>




definition FileExistsCheckHandler_check :: "path \<Rightarrow> filesystem \<Rightarrow> exn + bool" where
  "FileExistsCheckHandler_check p fs = Inr (path_exists fs p)"

definition AlwaysTrueCheckHandler_check :: "'w \<Rightarrow> exn + bool" where
  "AlwaysTrueCheckHandler_check w = Inr True"






subsection \<open>Configure handlers\<close>










section \<open>Notions of the specification\<close>



text \<open>The stripped key of a flag key that starts with \<open>launchFlags.\<close>: the key
  without this prefix.\<close>

definition stripped_key :: "string \<Rightarrow> string" where
  "stripped_key flag_key = drop (length ''launchFlags.'') flag_key"


text \<open>A call raises, if at all, an exception of a class derived from \<open>Exception\<close>.\<close>

definition raises_only_Exception :: "exn + 'a \<Rightarrow> bool" where
  "raises_only_Exception r = (case r of Inl e \<Rightarrow> is_Exception (exn_cls e) | Inr x \<Rightarrow> True)"

text \<open>The JSON parser raises only such exceptions (\<open>JSONDecodeError\<close>,
  \<open>UnicodeDecodeError\<close>, \<open>RecursionError\<close>), whatever the text.\<close>

definition parser_raises_only_Exception :: "(string \<Rightarrow> exn + json) \<Rightarrow> bool" where
  "parser_raises_only_Exception loads = (\<forall>s. raises_only_Exception (loads s))"

text \<open>A root contains, in its entry \<open>item\<close>, a valid descriptor that parses to the record
  \<open>c\<close>: the root lists the entry, the entry is a directory with a \<open>config.json\<close>, and
  \<open>_load_plugin_config\<close> returns \<open>c\<close> for it.\<close>

definition valid_plugin ::
  "(string \<Rightarrow> exn + json) \<Rightarrow> filesystem \<Rightarrow> path \<Rightarrow> string \<Rightarrow> plugin_config \<Rightarrow> bool"
where
  "valid_plugin loads fs root_dir item c =
     ((case fs root_dir of Some (Dir items) \<Rightarrow> item \<in> set items | _ \<Rightarrow> False) \<and>
      isdir fs (root_dir @ [item]) \<and>
      path_exists fs (root_dir @ [item, ''config.json'']) \<and>
      load_plugin_config loads fs (root_dir @ [item, ''config.json'']) (root_dir @ [item])
        = Inr (Some c))"

text \<open>What one round of the scan loop stores for an entry, what a root contributes, and
  the map after storing a list of records in order.\<close>

definition item_config ::
  "(string \<Rightarrow> exn + json) \<Rightarrow> filesystem \<Rightarrow> path \<Rightarrow> string \<Rightarrow> plugin_config option"
where
  "item_config loads fs base_dir item =
     (if isdir fs (base_dir @ [item]) \<and> path_exists fs (base_dir @ [item, ''config.json''])
      then (case load_plugin_config loads fs (base_dir @ [item, ''config.json''])
                   (base_dir @ [item]) of
              Inr (Some c) \<Rightarrow> Some c
            | _ \<Rightarrow> None)
      else None)"

definition dir_configs ::
  "(string \<Rightarrow> exn + json) \<Rightarrow> filesystem \<Rightarrow> path \<Rightarrow> plugin_config list"
where
  "dir_configs loads fs base_dir =
     (case listdir fs base_dir of
        Inr items \<Rightarrow> List.map_filter (item_config loads fs base_dir) items
      | Inl e \<Rightarrow> [])"

fun store_all ::
  "plugin_config list \<Rightarrow> (string \<rightharpoonup> plugin_config) \<Rightarrow> (string \<rightharpoonup> plugin_config)"
where
  "store_all [] m = m"
| "store_all (c # cs) m = store_all cs (m(name c \<mapsto> c))"

section \<open>Sample handlers and environments\<close>

text \<open>A check that is interrupted: \<open>KeyboardInterrupt\<close> is raised while it runs.\<close>

definition interrupted_check :: "unit \<Rightarrow> (exn + bool) \<times> unit" where
  "interrupted_check w = (Inl (Exn KeyboardInterrupt []), w)"

text \<open>A check and a configure action that fail with an I/O error, and ones that return.\<close>

definition failing_handler :: "unit \<Rightarrow> (exn + bool) \<times> unit" where
  "failing_handler w = (Inl (Exn OSError ''Permission denied''), w)"

definition returning_handler :: "bool \<Rightarrow> unit \<Rightarrow> (exn + bool) \<times> unit" where
  "returning_handler r w = (Inr r, w)"








text \<open>A home directory with both plugin roots. The system root has the plugins \<open>firefox\<close>
  and \<open>kate\<close>, a plugin whose descriptor is malformed and one whose descriptor cannot be
  read (it is a directory); the user root overrides
  \<open>firefox\<close> with another display name and adds the plugin \<open>code\<close>. The parser knows the
  four descriptors.\<close>

definition sample_home :: path where
  "sample_home = [''home'']"

definition plugin_loads :: "string \<Rightarrow> exn + json" where
  "plugin_loads t =
     (if t = ''{name: firefox}'' then Inr (JObj [(''name'', JStr ''firefox'')])
      else if t = ''{name: firefox, displayName: My Firefox}''
        then Inr (JObj [(''name'', JStr ''firefox''), (''displayName'', JStr ''My Firefox'')])
      else if t = ''{name: kate-editor}'' then Inr (JObj [(''name'', JStr ''kate-editor'')])
      else if t = ''{name: code, displayName: VS Code}''
        then Inr (JObj [(''name'', JStr ''code''), (''displayName'', JStr ''VS Code'')])
      else Inl (Exn JSONDecodeError ''Expecting value''))"

definition plugin_fs :: filesystem where
  "plugin_fs =
     [EXTENSION_PLUGIN_PATH sample_home
        \<mapsto> Dir [''firefox'', ''broken'', ''unreadable'', ''kate''],
      EXTENSION_PLUGIN_PATH sample_home @ [''unreadable''] \<mapsto> Dir [''config.json''],
      EXTENSION_PLUGIN_PATH sample_home @ [''unreadable'', ''config.json''] \<mapsto> Dir [],
      EXTENSION_PLUGIN_PATH sample_home @ [''firefox''] \<mapsto> Dir [''config.json''],
      EXTENSION_PLUGIN_PATH sample_home @ [''firefox'', ''config.json'']
        \<mapsto> File ''{name: firefox}'',
      EXTENSION_PLUGIN_PATH sample_home @ [''broken''] \<mapsto> Dir [''config.json''],
      EXTENSION_PLUGIN_PATH sample_home @ [''broken'', ''config.json''] \<mapsto> File ''{name: '',
      EXTENSION_PLUGIN_PATH sample_home @ [''kate''] \<mapsto> Dir [''config.json''],
      EXTENSION_PLUGIN_PATH sample_home @ [''kate'', ''config.json'']
        \<mapsto> File ''{name: kate-editor}'',
      USER_PLUGIN_PATH sample_home \<mapsto> Dir [''firefox'', ''vscode''],
      USER_PLUGIN_PATH sample_home @ [''vscode''] \<mapsto> Dir [''config.json''],
      USER_PLUGIN_PATH sample_home @ [''vscode'', ''config.json'']
        \<mapsto> File ''{name: code, displayName: VS Code}'',
      USER_PLUGIN_PATH sample_home @ [''firefox''] \<mapsto> Dir [''config.json''],
      USER_PLUGIN_PATH sample_home @ [''firefox'', ''config.json'']
        \<mapsto> File ''{name: firefox, displayName: My Firefox}'']"

text \<open>The record of a descriptor that gives a name, perhaps a display name, and nothing
  else.\<close>

definition plain_config :: "string \<Rightarrow> json \<Rightarrow> path \<Rightarrow> plugin_config" where
  "plain_config n dn dir =
     \<lparr>name = n, display_name = dn, description = JStr [], version = JStr ''1.0.0'',
      wm_class = JArr [], plugin_type = JStr [], executables = JArr [], flags = JArr [],
      conditional_flags = JObj [], is_single_instance = JBool False,
      auto_restore = JBool False, needs_config_manipulation = JBool False,
      needs_title_parsing = JBool False, settings = Map.empty, plugin_path = dir\<rparr>"

text \<open>Two descriptors with one conditional flag each: the key of the first is
  \<open>launchFlags.fooBar\<close>; the key of the second has the prefix \<open>launchFlags.\<close> twice.\<close>

definition flag_descriptor :: "string \<Rightarrow> json" where
  "flag_descriptor flag_key =
     JObj [(''name'', JStr ''app''),
           (''launch'', JObj [(''conditionalFlags'', JObj [(flag_key, JArr [JStr ''--x''])])])]"

section \<open>The \<open>execute\<close> wrappers\<close>

text \<open>
  C1, as stated: for every check handler and every configure handler, \<open>execute()\<close> never
  propagates an exception. This fails for an exception outside \<open>Exception\<close>: a check that
  raises \<open>KeyboardInterrupt\<close> makes \<open>execute()\<close> raise it too.
\<close>

theorem C1_counterexample:
  "CheckHandler_execute interrupted_check () = (Inl (Exn KeyboardInterrupt []), ())"
  by (simp add: CheckHandler_execute_def interrupted_check_def)

text \<open>
  C1, amended: for every check handler and every configure handler, in every world, if
  \<open>check()\<close> or \<open>configure()\<close> returns \<open>r\<close> then \<open>execute()\<close> returns \<open>(r, None)\<close>, and if
  it raises an exception \<open>e\<close> of a class derived from \<open>Exception\<close> then \<open>execute()\<close>
  returns \<open>(False, str(e))\<close> and raises nothing; an exception of a class outside
  \<open>Exception\<close> (\<open>KeyboardInterrupt\<close>, \<open>SystemExit\<close>) is raised by \<open>execute()\<close> too.
\<close>

theorem C1_execute_converts_exceptions:
  "(check w = (Inr r, w') \<longrightarrow> CheckHandler_execute check w = (Inr (r, None), w')) \<and>
   (check w = (Inl e, w') \<and> is_Exception (exn_cls e) \<longrightarrow>
      CheckHandler_execute check w = (Inr (False, Some (exn_str e)), w')) \<and>
   (configure w = (Inr r, w') \<longrightarrow> ConfigureHandler_execute configure w = (Inr (r, None), w')) \<and>
   (configure w = (Inl e, w') \<and> is_Exception (exn_cls e) \<longrightarrow>
      ConfigureHandler_execute configure w = (Inr (False, Some (exn_str e)), w')) \<and>
   (check w = (Inl e, w') \<and> \<not> is_Exception (exn_cls e) \<longrightarrow>
      CheckHandler_execute check w = (Inl e, w')) \<and>
   (configure w = (Inl e, w') \<and> \<not> is_Exception (exn_cls e) \<longrightarrow>
      ConfigureHandler_execute configure w = (Inl e, w'))"
  by (simp add: CheckHandler_execute_def ConfigureHandler_execute_def)

theorem C1_execute_converts_exceptions_witness:
  "CheckHandler_execute failing_handler () = (Inr (False, Some ''Permission denied''), ()) \<and>
   ConfigureHandler_execute failing_handler () = (Inr (False, Some ''Permission denied''), ()) \<and>
   CheckHandler_execute (returning_handler True) () = (Inr (True, None), ()) \<and>
   ConfigureHandler_execute (returning_handler False) () = (Inr (False, None), ())"
proof -
  have raised: "failing_handler () = (Inl (Exn OSError ''Permission denied''), ())"
    by (simp add: failing_handler_def)
  have cls: "is_Exception (exn_cls (Exn OSError ''Permission denied''))"
    by simp
  have a: "CheckHandler_execute failing_handler () = (Inr (False, Some ''Permission denied''), ())"
    using C1_execute_converts_exceptions
      [of failing_handler "()" True "()" "Exn OSError ''Permission denied''" failing_handler]
      raised cls
    by simp
  have b: "ConfigureHandler_execute failing_handler () = (Inr (False, Some ''Permission denied''), ())"
    using C1_execute_converts_exceptions
      [of failing_handler "()" True "()" "Exn OSError ''Permission denied''" failing_handler]
      raised cls
    by simp
  have c: "CheckHandler_execute (returning_handler True) () = (Inr (True, None), ())"
    using C1_execute_converts_exceptions
      [of "returning_handler True" "()" True "()" "Exn OSError []" "returning_handler True"]
    by (simp add: returning_handler_def)
  have d: "ConfigureHandler_execute (returning_handler False) () = (Inr (False, None), ())"
    using C1_execute_converts_exceptions
      [of "returning_handler False" "()" False "()" "Exn OSError []" "returning_handler False"]
    by (simp add: returning_handler_def)
  from a b c d show ?thesis by simp
qed



section \<open>The structured-key handlers\<close>










section \<open>The file system\<close>











section \<open>The text handlers\<close>




section \<open>The profile-directory handlers\<close>











section \<open>The plugin loader\<close>

lemma raises_only_simps [simp]:
  "raises_only_Exception (Inl e) = is_Exception (exn_cls e)"
  "raises_only_Exception (Inr x) = True"
  by (simp_all add: raises_only_Exception_def)

lemma and_then_simps [simp]:
  "and_then (Inl e) f = Inl e"
  "and_then (Inr x) f = f x"
  by (simp_all add: and_then_def)

lemma raises_only_and_then:
  "raises_only_Exception r \<Longrightarrow> (\<And>x. raises_only_Exception (f x)) \<Longrightarrow>
   raises_only_Exception (and_then r f)"
  by (cases r) simp_all

lemma raises_only_dict_get: "raises_only_Exception (dict_get obj k d)"
  by (cases obj) (simp_all add: dict_get_def)

lemma raises_only_dict_items: "raises_only_Exception (dict_items obj)"
  by (cases obj) (simp_all add: dict_items_def)

lemma raises_only_py_join: "raises_only_Exception (py_join sep v)"
  by (cases v) (simp_all add: py_join_def)

lemma raises_only_parse_setting: "raises_only_Exception (parse_setting k data)"
  unfolding parse_setting_def
  by (intro raises_only_and_then raises_only_dict_get) simp

lemma raises_only_parse_settings: "raises_only_Exception (parse_settings items st)"
proof (induction items arbitrary: st)
  case Nil
  then show ?case by simp
next
  case (Cons kv items)
  then show ?case
    by (cases kv) (simp add: raises_only_and_then raises_only_parse_setting)
qed

lemma raises_only_generate_launch_flags:
  "raises_only_Exception (generate_launch_flags items st)"
proof (induction items arbitrary: st)
  case Nil
  then show ?case by simp
next
  case (Cons kv items)
  then show ?case
    by (cases kv) (simp add: Let_def raises_only_and_then raises_only_py_join)
qed

lemma raises_only_build_plugin_config:
  "raises_only_Exception (build_plugin_config data plugin_dir)"
  unfolding build_plugin_config_def
  apply (rule raises_only_and_then)
   apply (rule raises_only_dict_get)
  subgoal for nm
    apply (cases nm; simp)
    apply (intro impI raises_only_and_then raises_only_dict_get raises_only_dict_items
        raises_only_parse_settings raises_only_generate_launch_flags)
    apply simp
    done
  done

lemma raises_only_load_plugin_config:
  "parser_raises_only_Exception loads \<Longrightarrow>
   raises_only_Exception (load_plugin_config loads fs config_file plugin_dir)"
proof -
  assume p: "parser_raises_only_Exception loads"
  have "raises_only_Exception (json_load_file loads fs config_file)"
    using p
    by (auto simp: json_load_file_def read_file_def parser_raises_only_Exception_def
        split: option.splits node.splits)
  then show ?thesis
    by (cases "json_load_file loads fs config_file")
      (simp_all add: load_plugin_config_def raises_only_build_plugin_config)
qed

lemma store_all_append: "store_all (xs @ ys) m = store_all ys (store_all xs m)"
  by (induction xs arbitrary: m) simp_all

lemma store_all_absent: "\<forall>c \<in> set cs. name c \<noteq> X \<Longrightarrow> store_all cs m X = m X"
  by (induction cs arbitrary: m) auto

lemma store_all_last:
  "\<forall>c \<in> set bs. name c \<noteq> name b \<Longrightarrow> store_all (as @ b # bs) m (name b) = Some b"
  by (simp add: store_all_append store_all_absent)

lemma store_all_present:
  "\<exists>c \<in> set cs. name c = X \<Longrightarrow> \<exists>c' \<in> set cs. name c' = X \<and> store_all cs m X = Some c'"
proof (induction cs arbitrary: m)
  case Nil
  then show ?case by simp
next
  case (Cons a cs)
  show ?case
  proof (cases "\<exists>c' \<in> set cs. name c' = X")
    case True
    from Cons.IH [OF True, of "m(name a \<mapsto> a)"] obtain c' where
      "c' \<in> set cs" "name c' = X" "store_all cs (m(name a \<mapsto> a)) X = Some c'"
      by blast
    then have "c' \<in> set (a # cs) \<and> name c' = X \<and> store_all (a # cs) m X = Some c'"
      by simp
    then show ?thesis by blast
  next
    case False
    with Cons.prems have "name a = X" by auto
    with False show ?thesis by (simp add: store_all_absent)
  qed
qed

lemma store_all_later:
  "\<exists>c \<in> set ys. name c = X \<Longrightarrow>
   \<exists>c' \<in> set ys. name c' = X \<and> store_all (xs @ ys) m X = Some c'"
  by (simp add: store_all_append store_all_present)

lemma item_config_cases:
  "item_config loads fs base_dir item =
     (if isdir fs (base_dir @ [item]) \<and> path_exists fs (base_dir @ [item, ''config.json''])
      then (case load_plugin_config loads fs (base_dir @ [item, ''config.json''])
                   (base_dir @ [item]) of
              Inr (Some c) \<Rightarrow> Some c
            | _ \<Rightarrow> None)
      else None)"
  by (simp add: item_config_def)

lemma scan_items_stores:
  assumes "parser_raises_only_Exception loads"
  shows "\<exists>st'. scan_items loads fs base_dir items st = Inr st' \<and>
           plugins st' =
             store_all (List.map_filter (item_config loads fs base_dir) items) (plugins st) \<and>
           loaded st' = loaded st"
proof (induction items arbitrary: st)
  case Nil
  then show ?case by (simp add: List.map_filter_simps)
next
  case (Cons item items)
  have ok: "raises_only_Exception
      (load_plugin_config loads fs (base_dir @ [item, ''config.json'']) (base_dir @ [item]))"
    using assms by (rule raises_only_load_plugin_config)
  show ?case
  proof (cases "item_config loads fs base_dir item")
    case None
    then have "scan_items loads fs base_dir (item # items) st
        = scan_items loads fs base_dir items st"
      using ok
      by (auto simp: item_config_cases split: if_splits sum.splits option.splits)
    with None Cons.IH [of st] show ?thesis
      by (simp add: List.map_filter_simps)
  next
    case (Some c)
    then have "scan_items loads fs base_dir (item # items) st
        = scan_items loads fs base_dir items (st\<lparr>plugins := (plugins st)(name c \<mapsto> c)\<rparr>)"
      by (auto simp: item_config_cases split: if_splits sum.splits option.splits)
    moreover from Cons.IH [of "st\<lparr>plugins := (plugins st)(name c \<mapsto> c)\<rparr>"]
    obtain st' where
      "scan_items loads fs base_dir items (st\<lparr>plugins := (plugins st)(name c \<mapsto> c)\<rparr>) = Inr st'"
      "plugins st' = store_all (List.map_filter (item_config loads fs base_dir) items)
         ((plugins st)(name c \<mapsto> c))"
      "loaded st' = loaded st"
      by (auto simp del: fun_upd_apply)
    moreover have "List.map_filter (item_config loads fs base_dir) (item # items)
        = c # List.map_filter (item_config loads fs base_dir) items"
      using Some by (simp add: List.map_filter_simps)
    ultimately show ?thesis
      by simp
  qed
qed

lemma scan_plugin_directory_stores:
  assumes "parser_raises_only_Exception loads"
  shows "\<exists>st'. scan_plugin_directory loads fs base_dir st = Inr st' \<and>
           plugins st' = store_all (dir_configs loads fs base_dir) (plugins st) \<and>
           loaded st' = loaded st"
proof (cases "listdir fs base_dir")
  case (Inl e)
  then have "is_Exception (exn_cls e)"
    by (auto simp: listdir_def split: option.splits node.splits)
  with Inl show ?thesis
    by (simp add: scan_plugin_directory_def dir_configs_def)
next
  case (Inr items)
  with scan_items_stores [OF assms, of fs base_dir items st] show ?thesis
    by (simp add: scan_plugin_directory_def dir_configs_def)
qed

lemma scan_directories_stores:
  assumes "parser_raises_only_Exception loads"
  shows "\<exists>st'. scan_directories loads fs ds st = Inr st' \<and>
           plugins st' = store_all (concat (map (dir_configs loads fs) ds)) (plugins st) \<and>
           loaded st' = loaded st"
proof (induction ds arbitrary: st)
  case Nil
  then show ?case by simp
next
  case (Cons d ds)
  from scan_plugin_directory_stores [OF assms, of fs d st] obtain st1 where
    a: "scan_plugin_directory loads fs d st = Inr st1"
    and b: "plugins st1 = store_all (dir_configs loads fs d) (plugins st)"
    and c: "loaded st1 = loaded st"
    by blast
  from Cons.IH [of st1] a b c show ?case
    by (auto simp: store_all_append)
qed

lemma load_all_stores:
  assumes "parser_raises_only_Exception loads"
  shows "\<exists>st'. load_all loads fs home init_loader = Inr st' \<and>
           plugins st' =
             store_all (concat (map (dir_configs loads fs) (get_plugin_directories fs home)))
               Map.empty \<and>
           loaded st'"
proof -
  from scan_directories_stores [OF assms, of fs "get_plugin_directories fs home"
      "init_loader\<lparr>plugins := Map.empty\<rparr>"]
  show ?thesis
    by (auto simp: load_all_def init_loader_def)
qed

lemma set_map_filter: "set (List.map_filter f xs) = {y. \<exists>x \<in> set xs. f x = Some y}"
  by (induction xs) (auto simp: List.map_filter_simps split: option.splits)

lemma dir_configs_iff:
  "c \<in> set (dir_configs loads fs root_dir) \<longleftrightarrow> (\<exists>item. valid_plugin loads fs root_dir item c)"
proof (cases "fs root_dir")
  case None
  then show ?thesis
    by (simp add: dir_configs_def listdir_def valid_plugin_def)
next
  case (Some n)
  show ?thesis
  proof (cases n)
    case (File t)
    with Some show ?thesis
      by (simp add: dir_configs_def listdir_def valid_plugin_def)
  next
    case (Dir items)
    have "item_config loads fs root_dir item = Some c \<longleftrightarrow>
        isdir fs (root_dir @ [item]) \<and> path_exists fs (root_dir @ [item, ''config.json'']) \<and>
        load_plugin_config loads fs (root_dir @ [item, ''config.json'']) (root_dir @ [item])
          = Inr (Some c)" for item
      by (auto simp: item_config_def split: sum.splits option.splits)
    with Some Dir show ?thesis
      by (auto simp: dir_configs_def listdir_def valid_plugin_def set_map_filter)
  qed
qed

lemma and_then_InrE:
  assumes "and_then r f = Inr y"
  obtains x where "r = Inr x" and "f x = Inr y"
  using assms by (cases r) simp_all



lemma valid_plugin_isdir: "valid_plugin loads fs root_dir item c \<Longrightarrow> isdir fs root_dir"
  by (auto simp: valid_plugin_def isdir_def split: option.splits node.splits)

lemma get_plugin_stores:
  assumes "parser_raises_only_Exception loads"
  shows "\<exists>st'. get_plugin loads fs home init_loader X =
           Inr (store_all (concat (map (dir_configs loads fs) (get_plugin_directories fs home)))
                  Map.empty X, st')"
  using load_all_stores [OF assms, of fs home]
  by (auto simp: get_plugin_def)

lemma get_all_plugins_stores:
  assumes "parser_raises_only_Exception loads"
  shows "\<exists>st'. get_all_plugins loads fs home init_loader =
           Inr (store_all (concat (map (dir_configs loads fs) (get_plugin_directories fs home)))
                  Map.empty, st')"
  using load_all_stores [OF assms, of fs home]
  by (auto simp: get_all_plugins_def)

lemma unique_record_stored:
  assumes member: "root_dir \<in> set (get_plugin_directories fs home)"
    and valid: "valid_plugin loads fs root_dir item c"
    and unique: "\<forall>d \<in> set (get_plugin_directories fs home). \<forall>item' c'.
        valid_plugin loads fs d item' c' \<and> name c' = name c \<longrightarrow> c' = c"
  shows "store_all (concat (map (dir_configs loads fs) (get_plugin_directories fs home)))
           Map.empty (name c) = Some c"
proof -
  let ?all = "concat (map (dir_configs loads fs) (get_plugin_directories fs home))"
  from valid have "c \<in> set (dir_configs loads fs root_dir)"
    unfolding dir_configs_iff by blast
  with member have "\<exists>c' \<in> set ?all. name c' = name c"
    by auto
  then obtain c' where c': "c' \<in> set ?all" "name c' = name c"
    and stored: "store_all ?all Map.empty (name c) = Some c'"
    using store_all_present [of ?all "name c" Map.empty] by blast
  from c'(1) obtain d item' where "d \<in> set (get_plugin_directories fs home)"
    and "valid_plugin loads fs d item' c'"
    by (auto simp: dir_configs_iff)
  with unique c'(2) have "c' = c" by blast
  with stored show ?thesis by simp
qed

text \<open>
  C2: whatever the system root holds (in particular a valid descriptor with the same
  name), if the user-override root contains a valid descriptor with the name \<open>X\<close>, then
  after a full load by a new loader the store answers a query for \<open>X\<close> with one record,
  and it is a record that \<open>_load_plugin_config\<close> returned, whole, for a descriptor of the
  user-override root: the last writer wins, and no field of a system record is merged in.
  The JSON parser is taken to raise only exceptions derived from \<open>Exception\<close>.
\<close>

theorem C2_user_root_overrides:
  assumes parser: "parser_raises_only_Exception loads"
    and user: "valid_plugin loads fs (USER_PLUGIN_PATH home) item c"
  shows "\<exists>c' item' st'.
           get_plugin loads fs home init_loader (name c) = Inr (Some c', st') \<and>
           valid_plugin loads fs (USER_PLUGIN_PATH home) item' c' \<and>
           name c' = name c"
proof -
  let ?system = "if isdir fs (EXTENSION_PLUGIN_PATH home)
                 then dir_configs loads fs (EXTENSION_PLUGIN_PATH home) else []"
  let ?user = "dir_configs loads fs (USER_PLUGIN_PATH home)"
  from user have "isdir fs (USER_PLUGIN_PATH home)"
    by (rule valid_plugin_isdir)
  then have all: "concat (map (dir_configs loads fs) (get_plugin_directories fs home))
      = ?system @ ?user"
    by (simp add: get_plugin_directories_def)
  from user have "c \<in> set ?user"
    unfolding dir_configs_iff by blast
  then have "\<exists>c' \<in> set ?user. name c' = name c"
    by blast
  then obtain c' where c': "c' \<in> set ?user" "name c' = name c"
    and stored: "store_all (?system @ ?user) Map.empty (name c) = Some c'"
    using store_all_later [of ?user "name c" ?system Map.empty] by blast
  from c'(1) obtain item' where "valid_plugin loads fs (USER_PLUGIN_PATH home) item' c'"
    by (auto simp: dir_configs_iff)
  moreover from get_plugin_stores [OF parser, of fs home "name c"] all stored
  obtain st' where "get_plugin loads fs home init_loader (name c) = Inr (Some c', st')"
    by auto
  ultimately show ?thesis
    using c'(2) by blast
qed

text \<open>
  C6: for every scanned plugin root that contains a valid descriptor (the only one of its
  name in the scanned roots), whatever its sibling directories contain (a descriptor that
  is malformed JSON, one that cannot be read, one whose load raises any exception derived
  from \<open>Exception\<close>), a full load returns, and \<open>get_all_plugins()\<close> has the valid plugin's
  record under its name: a failure for one plugin never aborts the scan of the siblings.
\<close>

theorem C6_malformed_sibling_skipped:
  assumes parser: "parser_raises_only_Exception loads"
    and member: "root_dir \<in> set (get_plugin_directories fs home)"
    and valid: "valid_plugin loads fs root_dir item c"
    and unique: "\<forall>d \<in> set (get_plugin_directories fs home). \<forall>item' c'.
        valid_plugin loads fs d item' c' \<and> name c' = name c \<longrightarrow> c' = c"
  shows "\<exists>m st'. get_all_plugins loads fs home init_loader = Inr (m, st') \<and>
           m (name c) = Some c"
  using get_all_plugins_stores [OF parser, of fs home]
    unique_record_stored [OF member valid unique]
  by auto


subsection \<open>The sample plugin roots\<close>

lemmas char_eval = py_title_def py_replace_def is_lower_def is_upper_def is_cased_def
  to_upper_def to_lower_def lowercase_letters_def uppercase_letters_def

lemmas loader_eval = load_plugin_config_def json_load_file_def read_file_def
  build_plugin_config_def dict_get_def dict_items_def plain_config_def
  is_JSONDecodeError_or_IOError_def

lemma plugin_loads_ok: "parser_raises_only_Exception plugin_loads"
  by (simp add: parser_raises_only_Exception_def plugin_loads_def)

lemma sample_dirs:
  "get_plugin_directories plugin_fs sample_home =
     [EXTENSION_PLUGIN_PATH sample_home, USER_PLUGIN_PATH sample_home]"
  by (simp add: get_plugin_directories_def isdir_def plugin_fs_def
      EXTENSION_PLUGIN_PATH_def USER_PLUGIN_PATH_def sample_home_def)

lemma user_plugins:
  "valid_plugin plugin_loads plugin_fs (USER_PLUGIN_PATH sample_home) item c \<longleftrightarrow>
     item = ''firefox'' \<and>
       c = plain_config ''firefox'' (JStr ''My Firefox'')
             (USER_PLUGIN_PATH sample_home @ [''firefox'']) \<or>
     item = ''vscode'' \<and>
       c = plain_config ''code'' (JStr ''VS Code'') (USER_PLUGIN_PATH sample_home @ [''vscode''])"
  by (auto simp: valid_plugin_def isdir_def path_exists_def plugin_fs_def plugin_loads_def
      EXTENSION_PLUGIN_PATH_def USER_PLUGIN_PATH_def sample_home_def loader_eval char_eval)

lemma system_plugins:
  "valid_plugin plugin_loads plugin_fs (EXTENSION_PLUGIN_PATH sample_home) item c \<longleftrightarrow>
     item = ''firefox'' \<and>
       c = plain_config ''firefox'' (JStr ''Firefox'')
             (EXTENSION_PLUGIN_PATH sample_home @ [''firefox'']) \<or>
     item = ''kate'' \<and>
       c = plain_config ''kate-editor'' (JStr ''Kate Editor'')
             (EXTENSION_PLUGIN_PATH sample_home @ [''kate''])"
  by (auto simp: valid_plugin_def isdir_def path_exists_def plugin_fs_def plugin_loads_def
      EXTENSION_PLUGIN_PATH_def USER_PLUGIN_PATH_def sample_home_def loader_eval char_eval)

theorem C2_user_root_overrides_witness:
  "\<exists>st'. get_plugin plugin_loads plugin_fs sample_home init_loader ''firefox'' =
          Inr (Some (plain_config ''firefox'' (JStr ''My Firefox'')
                       (USER_PLUGIN_PATH sample_home @ [''firefox''])), st')"
proof -
  let ?c = "plain_config ''firefox'' (JStr ''My Firefox'')
              (USER_PLUGIN_PATH sample_home @ [''firefox''])"
  have v: "valid_plugin plugin_loads plugin_fs (USER_PLUGIN_PATH sample_home) ''firefox'' ?c"
    by (simp add: user_plugins)
  have n: "name ?c = ''firefox''"
    by (simp add: plain_config_def)
  from C2_user_root_overrides [OF plugin_loads_ok v] obtain c' item' st' where
    "get_plugin plugin_loads plugin_fs sample_home init_loader (name ?c) = Inr (Some c', st')"
    and "valid_plugin plugin_loads plugin_fs (USER_PLUGIN_PATH sample_home) item' c'"
    and "name c' = name ?c"
    by blast
  then show ?thesis
    unfolding n by (auto simp: user_plugins plain_config_def)
qed

theorem C6_malformed_sibling_skipped_witness:
  "json_load_file plugin_loads plugin_fs
     (EXTENSION_PLUGIN_PATH sample_home @ [''broken'', ''config.json''])
     = Inl (Exn JSONDecodeError ''Expecting value'') \<and>
   json_load_file plugin_loads plugin_fs
     (EXTENSION_PLUGIN_PATH sample_home @ [''unreadable'', ''config.json''])
     = Inl (Exn OSError ''Is a directory'') \<and>
   (\<exists>m st'. get_all_plugins plugin_loads plugin_fs sample_home init_loader = Inr (m, st') \<and>
      m ''kate-editor'' =
        Some (plain_config ''kate-editor'' (JStr ''Kate Editor'')
                (EXTENSION_PLUGIN_PATH sample_home @ [''kate''])))"
proof -
  let ?c = "plain_config ''kate-editor'' (JStr ''Kate Editor'')
              (EXTENSION_PLUGIN_PATH sample_home @ [''kate''])"
  have broken: "json_load_file plugin_loads plugin_fs
     (EXTENSION_PLUGIN_PATH sample_home @ [''broken'', ''config.json''])
     = Inl (Exn JSONDecodeError ''Expecting value'')"
    by (simp add: json_load_file_def read_file_def plugin_fs_def plugin_loads_def
        EXTENSION_PLUGIN_PATH_def USER_PLUGIN_PATH_def sample_home_def)
  have unreadable: "json_load_file plugin_loads plugin_fs
     (EXTENSION_PLUGIN_PATH sample_home @ [''unreadable'', ''config.json''])
     = Inl (Exn OSError ''Is a directory'')"
    by (simp add: json_load_file_def read_file_def plugin_fs_def plugin_loads_def
        EXTENSION_PLUGIN_PATH_def USER_PLUGIN_PATH_def sample_home_def)
  have m: "EXTENSION_PLUGIN_PATH sample_home \<in> set (get_plugin_directories plugin_fs sample_home)"
    by (simp add: sample_dirs)
  have v: "valid_plugin plugin_loads plugin_fs (EXTENSION_PLUGIN_PATH sample_home) ''kate'' ?c"
    by (simp add: system_plugins)
  have n: "name ?c = ''kate-editor''"
    by (simp add: plain_config_def)
  have u: "\<forall>d \<in> set (get_plugin_directories plugin_fs sample_home). \<forall>item' c'.
      valid_plugin plugin_loads plugin_fs d item' c' \<and> name c' = name ?c \<longrightarrow> c' = ?c"
    by (auto simp: sample_dirs system_plugins user_plugins plain_config_def)
  from C6_malformed_sibling_skipped [OF plugin_loads_ok m v u] broken unreadable
  show ?thesis
    unfolding n by blast
qed


subsection \<open>Launch-flag settings\<close>

lemma generate_launch_flags_keeps:
  "generate_launch_flags items st = Inr st' \<Longrightarrow> st k = Some s \<Longrightarrow> st' k = Some s"
proof (induction items arbitrary: st)
  case Nil
  then show ?case by simp
next
  case (Cons kv items)
  obtain fk fl where kv: "kv = (fk, fl)" by (cases kv)
  show ?case
  proof (cases "startswith fk ''launchFlags.'' \<and> st (py_replace fk ''launchFlags.'' []) = None")
    case False
    with Cons.prems kv have "generate_launch_flags items st = Inr st'"
      by (auto simp: Let_def split: if_splits)
    from this Cons.prems(2) show ?thesis by (rule Cons.IH)
  next
    case True
    with Cons.prems(1) kv obtain joined where
      rest: "generate_launch_flags items
          (st(py_replace fk ''launchFlags.'' [] \<mapsto>
              launch_flag_setting (py_replace fk ''launchFlags.'' []) joined)) = Inr st'"
      by (auto simp: Let_def elim!: and_then_InrE)
    from True Cons.prems(2) have "k \<noteq> py_replace fk ''launchFlags.'' []"
      by auto
    with Cons.prems(2) have
      "(st(py_replace fk ''launchFlags.'' [] \<mapsto>
          launch_flag_setting (py_replace fk ''launchFlags.'' []) joined)) k = Some s"
      by simp
    with rest show ?thesis by (rule Cons.IH)
  qed
qed

lemma generate_launch_flags_makes:
  assumes "generate_launch_flags items st = Inr st'"
    and "(fk, fl) \<in> set items"
    and "startswith fk ''launchFlags.''"
    and "st (py_replace fk ''launchFlags.'' []) = None \<or>
         (\<exists>joined. st (py_replace fk ''launchFlags.'' [])
            = Some (launch_flag_setting (py_replace fk ''launchFlags.'' []) joined))"
  shows "\<exists>joined. st' (py_replace fk ''launchFlags.'' [])
           = Some (launch_flag_setting (py_replace fk ''launchFlags.'' []) joined)"
  using assms
proof (induction items arbitrary: st)
  case Nil
  then show ?case by simp
next
  case (Cons kv items)
  let ?k = "py_replace fk ''launchFlags.'' []"
  obtain fk0 fl0 where kv: "kv = (fk0, fl0)" by (cases kv)
  let ?hk = "py_replace fk0 ''launchFlags.'' []"
  from Cons.prems(1) kv obtain st1 where
    step: "st1 = st \<or> (startswith fk0 ''launchFlags.'' \<and> st ?hk = None \<and>
              (\<exists>joined. st1 = st(?hk \<mapsto> launch_flag_setting ?hk joined)))"
    and unchanged: "\<not> (startswith fk0 ''launchFlags.'' \<and> st ?hk = None) \<longrightarrow> st1 = st"
    and changed: "startswith fk0 ''launchFlags.'' \<and> st ?hk = None \<longrightarrow>
              (\<exists>joined. st1 = st(?hk \<mapsto> launch_flag_setting ?hk joined))"
    and rest: "generate_launch_flags items st1 = Inr st'"
    by (cases "startswith fk0 ''launchFlags.'' \<and> st ?hk = None")
      (auto simp: Let_def elim!: and_then_InrE split: if_splits)
  have inv: "st1 ?k = None \<or> (\<exists>joined. st1 ?k = Some (launch_flag_setting ?k joined))"
  proof (cases "startswith fk0 ''launchFlags.'' \<and> st ?hk = None")
    case False
    with unchanged have "st1 = st" by blast
    with Cons.prems(4) show ?thesis by simp
  next
    case True
    with changed obtain joined where "st1 = st(?hk \<mapsto> launch_flag_setting ?hk joined)"
      by blast
    with Cons.prems(4) show ?thesis
      by (cases "?hk = ?k") auto
  qed
  show ?case
  proof (cases "(fk, fl) = kv")
    case True
    with kv have same: "fk0 = fk" by simp
    have "\<exists>joined. st1 ?k = Some (launch_flag_setting ?k joined)"
    proof (cases "st ?k = None")
      case True
      with changed same Cons.prems(3) show ?thesis by auto
    next
      case False
      with unchanged same Cons.prems(4) show ?thesis by auto
    qed
    then obtain joined where "st1 ?k = Some (launch_flag_setting ?k joined)" ..
    with rest have "st' ?k = Some (launch_flag_setting ?k joined)"
      by (rule generate_launch_flags_keeps)
    then show ?thesis ..
  next
    case False
    with Cons.prems(2) have "(fk, fl) \<in> set items" by auto
    from rest this Cons.prems(3) inv show ?thesis by (rule Cons.IH)
  qed
qed

lemma replace_from_absent:
  "\<not> sublist old s \<Longrightarrow> replace_from old new s = s"
proof (induction s)
  case Nil
  then show ?case by simp
next
  case (Cons c cs)
  from Cons.prems have "\<not> prefix old (c # cs)" and "\<not> sublist old cs"
    by (auto simp: sublist_Cons_right)
  with Cons.IH show ?case by simp
qed

lemma stripped_key_append: "stripped_key (''launchFlags.'' @ rest) = rest"
  by (simp add: stripped_key_def)

lemma py_replace_strips_prefix:
  assumes "old \<noteq> []" and "\<not> py_in old rest"
  shows "py_replace (old @ rest) old [] = rest"
proof -
  from assms(1) obtain c cs where old: "old = c # cs" by (cases old) auto
  have "replace_from old [] (old @ rest) = replace_from old [] rest"
    unfolding old by simp
  with assms show ?thesis
    by (simp add: py_replace_def py_in_def replace_from_absent)
qed

lemma dict_items_InrD: "dict_items obj = Inr items \<Longrightarrow> obj = JObj items"
  by (cases obj) (simp_all add: dict_items_def)

lemma parse_settings_dom:
  "parse_settings items st = Inr st' \<Longrightarrow> dom st' = dom st \<union> fst ` set items"
proof (induction items arbitrary: st)
  case Nil
  then show ?case by simp
next
  case (Cons kv items)
  obtain k v where kv: "kv = (k, v)" by (cases kv)
  from Cons.prems kv obtain s where "parse_settings items (st(k \<mapsto> s)) = Inr st'"
    by (auto elim!: and_then_InrE)
  from Cons.IH [OF this] kv show ?case by auto
qed

lemma build_plugin_config_settings:
  assumes "build_plugin_config data plugin_dir = Inr (Some c)"
  shows "\<exists>launch flag_items setting_items parsed.
           dict_get data ''launch'' (JObj []) = Inr launch \<and>
           dict_get launch ''conditionalFlags'' (JObj []) = Inr (JObj flag_items) \<and>
           dict_get data ''settings'' (JObj []) = Inr (JObj setting_items) \<and>
           parse_settings setting_items Map.empty = Inr parsed \<and>
           generate_launch_flags flag_items parsed = Inr (settings c)"
proof -
  from assms obtain nm where nm: "dict_get data ''name'' (JStr []) = Inr nm"
    and rest: "(if \<not> truthy nm then Inr None
       else (case nm of
         JStr n \<Rightarrow>
           and_then (dict_get data ''displayName''
                       (JStr (py_title (py_replace n ''-'' '' '')))) (\<lambda>dn.
           and_then (dict_get data ''launch'' (JObj [])) (\<lambda>launch.
           and_then (dict_get launch ''conditionalFlags'' (JObj [])) (\<lambda>cflags.
           and_then (dict_get data ''features'' (JObj [])) (\<lambda>features.
           and_then (dict_get data ''settings'' (JObj [])) (\<lambda>settings_data.
           and_then (dict_items settings_data) (\<lambda>setting_items.
           and_then (parse_settings setting_items Map.empty) (\<lambda>parsed.
           and_then (dict_items cflags) (\<lambda>flag_items.
           and_then (generate_launch_flags flag_items parsed) (\<lambda>all_settings.
           and_then (dict_get data ''description'' (JStr [])) (\<lambda>descr.
           and_then (dict_get data ''version'' (JStr ''1.0.0'')) (\<lambda>ver.
           and_then (dict_get data ''wmClass'' (JArr [])) (\<lambda>wm.
           and_then (dict_get data ''type'' (JStr [])) (\<lambda>ty.
           and_then (dict_get launch ''executables'' (JArr [])) (\<lambda>execs.
           and_then (dict_get launch ''flags'' (JArr [])) (\<lambda>flgs.
           and_then (dict_get features ''isSingleInstance'' (JBool False)) (\<lambda>single.
           and_then (dict_get features ''autoRestore'' (JBool False)) (\<lambda>auto.
           and_then (dict_get features ''needsConfigManipulation'' (JBool False)) (\<lambda>manip.
           and_then (dict_get features ''needsTitleParsing'' (JBool False)) (\<lambda>titlep.
             Inr (Some \<lparr>name = n, display_name = dn, description = descr, version = ver,
                        wm_class = wm, plugin_type = ty, executables = execs, flags = flgs,
                        conditional_flags = cflags, is_single_instance = single,
                        auto_restore = auto, needs_config_manipulation = manip,
                        needs_title_parsing = titlep, settings = all_settings,
                        plugin_path = plugin_dir\<rparr>))))))))))))))))))))
       | _ \<Rightarrow> Inl (Exn AttributeError ''object has no attribute 'replace' ''))) = Inr (Some c)"
    unfolding build_plugin_config_def by (erule and_then_InrE)
  from rest have t: "truthy nm"
    by (auto split: if_splits)
  with rest obtain n where n: "nm = JStr n"
    by (cases nm) simp_all
  from rest t n obtain launch cflags settings_data setting_items parsed flag_items all_settings
    where "dict_get data ''launch'' (JObj []) = Inr launch"
      and "dict_get launch ''conditionalFlags'' (JObj []) = Inr cflags"
      and "dict_get data ''settings'' (JObj []) = Inr settings_data"
      and "dict_items settings_data = Inr setting_items"
      and "parse_settings setting_items Map.empty = Inr parsed"
      and "dict_items cflags = Inr flag_items"
      and "generate_launch_flags flag_items parsed = Inr all_settings"
      and "settings c = all_settings"
    by (auto elim!: and_then_InrE)
  then show ?thesis
    by (auto dest!: dict_items_InrD)
qed

text \<open>The property of the specification, for a flag key that has \<open>launchFlags.\<close> as its
  prefix only: a record that was built has the generated setting under the rest of the
  key when the descriptor gives no setting of that key, and the explicit setting
  otherwise.\<close>

lemma launch_flags_synthesized:
  assumes built: "build_plugin_config data plugin_dir = Inr (Some c)"
    and launch: "dict_get data ''launch'' (JObj []) = Inr launch"
    and cflags: "dict_get launch ''conditionalFlags'' (JObj []) = Inr (JObj flag_items)"
    and explicit: "dict_get data ''settings'' (JObj []) = Inr (JObj setting_items)"
    and entry: "(''launchFlags.'' @ rest, flgs) \<in> set flag_items"
    and once: "\<not> py_in ''launchFlags.'' rest"
  shows "(rest \<notin> fst ` set setting_items \<longrightarrow>
            (\<exists>joined. settings c rest = Some (launch_flag_setting rest joined))) \<and>
         (rest \<in> fst ` set setting_items \<longrightarrow>
            (\<exists>parsed. parse_settings setting_items Map.empty = Inr parsed \<and>
               parsed rest \<noteq> None \<and> settings c rest = parsed rest))"
proof -
  from build_plugin_config_settings [OF built] launch cflags explicit
  obtain parsed where parsed: "parse_settings setting_items Map.empty = Inr parsed"
    and generated: "generate_launch_flags flag_items parsed = Inr (settings c)"
    by auto
  from parse_settings_dom [OF parsed] have keys: "dom parsed = fst ` set setting_items"
    by simp
  have key: "py_replace (''launchFlags.'' @ rest) ''launchFlags.'' [] = rest"
    using once by (intro py_replace_strips_prefix) simp_all
  have starts: "startswith (''launchFlags.'' @ rest) ''launchFlags.''"
    by (simp add: startswith_def)
  have absent: "\<exists>joined. settings c rest = Some (launch_flag_setting rest joined)"
    if "rest \<notin> fst ` set setting_items"
  proof -
    from that keys have "parsed rest = None" by auto
    with generate_launch_flags_makes [OF generated entry starts] key show ?thesis
      by simp
  qed
  have present: "parsed rest \<noteq> None \<and> settings c rest = parsed rest"
    if "rest \<in> fst ` set setting_items"
  proof -
    from that keys obtain s where "parsed rest = Some s" by auto
    with generate_launch_flags_keeps [OF generated] show ?thesis by auto
  qed
  from absent present parsed show ?thesis by blast
qed

text \<open>The example of the specification: the key \<open>launchFlags.fooBar\<close> gives the setting
  \<open>fooBar\<close> of type \<open>launch_flag\<close> with the label \<open>Foo Bar\<close>.\<close>

lemma launch_flag_example:
  "(case build_plugin_config (flag_descriptor ''launchFlags.fooBar'') [''plugins'', ''app''] of
      Inr (Some c) \<Rightarrow>
        map_option (\<lambda>s. (setting_key s, setting_type s, setting_label s)) (settings c ''fooBar'')
          = Some (''fooBar'', JStr ''launch_flag'', JStr ''Foo Bar'')
    | _ \<Rightarrow> False)"
  by (simp add: build_plugin_config_def flag_descriptor_def dict_get_def dict_items_def
      startswith_def py_join_def launch_flag_setting_def generate_flag_label_def Let_def
      char_eval)

text \<open>
  C3: the flag key \<open>launchFlags.launchFlags.x\<close> starts with \<open>launchFlags.\<close>; its
  stripped key is \<open>launchFlags.x\<close>, which is no key of the parsed settings (the
  descriptor has none). Loading does not synthesize a setting with the key
  \<open>launchFlags.x\<close>: \<^verbatim>\<open>str.replace\<close> removes every occurrence of \<open>launchFlags.\<close>, not
  the prefix only, so the synthesized setting has the key \<open>x\<close> and the label \<open>X\<close>.
\<close>

theorem C3_replace_removes_every_occurrence:
  "startswith ''launchFlags.launchFlags.x'' ''launchFlags.'' \<and>
   stripped_key ''launchFlags.launchFlags.x'' = ''launchFlags.x'' \<and>
   (case build_plugin_config (flag_descriptor ''launchFlags.launchFlags.x'')
           [''plugins'', ''app''] of
      Inr (Some c) \<Rightarrow>
        settings c (stripped_key ''launchFlags.launchFlags.x'') = None \<and>
        map_option (\<lambda>s. (setting_key s, setting_type s, setting_label s)) (settings c ''x'')
          = Some (''x'', JStr ''launch_flag'', JStr ''X'')
    | _ \<Rightarrow> False)"
  by (simp add: build_plugin_config_def flag_descriptor_def dict_get_def dict_items_def
      startswith_def py_join_def launch_flag_setting_def generate_flag_label_def Let_def
      stripped_key_def char_eval)

end
